theory Spec2Isabelle
  imports Complex_Main
begin

section \<open>Exceptions\<close>

text \<open>
  The program is Python; every exception that the code or a library call can raise is a
  value of this type. A function that may raise returns \<open>error + 'a\<close>, \<open>Inl\<close> the
  exception.
\<close>

datatype error = EngineError | TypeError | ValueError | IndexError | OSError

section \<open>The engine's evaluation of a position\<close>

text \<open>
  The score type of the chess library, as \<open>analyze_for_mate\<close> uses it: a score is centipawns,
  a mate in a signed number of moves, or the mate already given. \<open>is_mate\<close> and \<open>mate\<close>
  are the library's accessors; \<open>neg_score\<close> is the change of point of view.
\<close>

datatype score = Cp int | Mate int | MateGiven

fun is_mate :: "score \<Rightarrow> bool" where
  "is_mate (Cp c) = False"
| "is_mate (Mate m) = True"
| "is_mate MateGiven = True"

fun mate :: "score \<Rightarrow> int option" where
  "mate (Cp c) = None"
| "mate (Mate m) = Some m"
| "mate MateGiven = Some 0"

fun neg_score :: "score \<Rightarrow> score" where
  "neg_score (Cp c) = Cp (- c)"
| "neg_score (Mate m) = (if m = 0 then MateGiven else Mate (- m))"
| "neg_score MateGiven = Mate 0"

text \<open>A score with its point of view: \<open>relative\<close> is the score for the side to move,
  \<open>pov_turn\<close> that side (\<open>True\<close> is White, as \<open>chess.WHITE\<close> is).\<close>

record pov_score =
  relative :: score
  pov_turn :: bool

definition white :: "pov_score \<Rightarrow> score" where
  "white s = (if pov_turn s then relative s else neg_score (relative s))"

text \<open>The dictionary \<open>info\<close> that \<open>engine.analyse\<close> returns: the keys \<open>"score"\<close> and
  \<open>"pv"\<close> may each be absent.\<close>

record 'm info =
  info_score :: "pov_score option"
  info_pv :: "'m list option"

text \<open>The engine is a long-lived process: a call of \<open>engine.analyse\<close> takes the engine's
  state and the position, and gives the dictionary or raises, and the next state.\<close>

type_synonym ('e, 'p, 'm) analyse = "'e \<Rightarrow> 'p \<Rightarrow> (error + 'm info) \<times> 'e"

text \<open>Python's slice \<open>xs[:k]\<close>.\<close>

definition py_take :: "int \<Rightarrow> 'a list \<Rightarrow> 'a list" where
  "py_take k xs = (if 0 \<le> k then take (nat k) xs else take (nat (int (length xs) + k)) xs)"

text \<open>
  \<open>analyze_for_mate(engine, board, max_mate)\<close>. The whole body is inside
  \<open>try ... except Exception\<close>, so an exception of \<open>engine.analyse\<close>, and the
  \<open>TypeError\<close> of \<open>abs(None)\<close>, give \<open>(None, None)\<close>.
\<close>

definition analyze_for_mate ::
  "('e, 'p, 'm) analyse \<Rightarrow> 'e \<Rightarrow> 'p \<Rightarrow> int \<Rightarrow> (int option \<times> 'm list option) \<times> 'e" where
  "analyze_for_mate analyse eng board max_mate =
     (case analyse eng board of
        (Inl e, eng') \<Rightarrow> ((None, None), eng')
      | (Inr info, eng') \<Rightarrow>
          (case info_score info of
             None \<Rightarrow> ((None, None), eng')
           | Some sc \<Rightarrow>
               if is_mate (white sc) then
                 (case mate (white sc) of
                    None \<Rightarrow> ((None, None), eng')
                  | Some m \<Rightarrow>
                      let mate_in = \<bar>m\<bar> in
                      if mate_in \<le> max_mate then
                        let pv = (case info_pv info of None \<Rightarrow> [] | Some l \<Rightarrow> l) in
                        if mate_in * 2 - 1 \<le> int (length pv)
                        then ((Some mate_in, Some (py_take (mate_in * 2) pv)), eng')
                        else ((None, None), eng')
                      else ((None, None), eng'))
               else ((None, None), eng')))"

text \<open>
  What the evaluation reports, in the words of the specification: the forced mate distance
  (the number of moves, without its sign), if the evaluation succeeded and its score is a
  mate score; and the principal variation, empty when there is none.
\<close>

definition reported_mate :: "error + 'm info \<Rightarrow> int option" where
  "reported_mate r =
     (case r of
        Inl e \<Rightarrow> None
      | Inr info \<Rightarrow>
          (case info_score info of
             None \<Rightarrow> None
           | Some sc \<Rightarrow> map_option abs (mate (relative sc))))"

definition reported_pv :: "error + 'm info \<Rightarrow> 'm list" where
  "reported_pv r =
     (case r of
        Inl e \<Rightarrow> []
      | Inr info \<Rightarrow> (case info_pv info of None \<Rightarrow> [] | Some l \<Rightarrow> l))"

definition spec_analysis :: "error + 'm info \<Rightarrow> int option \<times> 'm list option" where
  "spec_analysis r =
     (case reported_mate r of
        None \<Rightarrow> (None, None)
      | Some M \<Rightarrow>
          if M \<le> 3 \<and> 2 * M - 1 \<le> int (length (reported_pv r))
          then (Some M, Some (take (nat (2 * M)) (reported_pv r)))
          else (None, None))"

section \<open>The rules of chess, as the program calls them\<close>

text \<open>
  Positions \<open>'p\<close> and moves \<open>'m\<close> belong to the chess library. The program reaches them
  only through the calls below, so the model takes them as a record of functions:
  \<open>new_board\<close> is \<open>chess.Board()\<close>, \<open>push R b m\<close> the board after \<open>b.push(m)\<close>,
  \<open>turn\<close> is \<open>True\<close> for White, \<open>san\<close> may raise, \<open>board_svg\<close> is \<open>chess.svg.board\<close>
  with the last move and the orientation.
\<close>

record ('p, 'm) rules =
  new_board :: "'p"
  legal_moves :: "'p \<Rightarrow> 'm list"
  push :: "'p \<Rightarrow> 'm \<Rightarrow> 'p"
  is_game_over :: "'p \<Rightarrow> bool"
  is_checkmate :: "'p \<Rightarrow> bool"
  is_check :: "'p \<Rightarrow> bool"
  is_capture :: "'p \<Rightarrow> 'm \<Rightarrow> bool"
  turn :: "'p \<Rightarrow> bool"
  to_square :: "'m \<Rightarrow> nat"
  san :: "'p \<Rightarrow> 'm \<Rightarrow> error + string"
  uci :: "'m \<Rightarrow> string"
  fen :: "'p \<Rightarrow> string"
  board_svg :: "'p \<Rightarrow> 'm option \<Rightarrow> bool \<Rightarrow> string"

text \<open>\<open>chess.square_file\<close> and \<open>chess.square_rank\<close> of a square \<open>0..63\<close>.\<close>

definition square_file :: "nat \<Rightarrow> nat" where
  "square_file sq = sq mod 8"

definition square_rank :: "nat \<Rightarrow> nat" where
  "square_rank sq = sq div 8"

section \<open>The random module\<close>

text \<open>
  The generator's raw outputs are a sequence \<open>g\<close> of numbers, read at a position that each
  call advances. \<open>random.random()\<close> is a multiple of \<open>2^-53\<close> in \<open>[0, 1)\<close>;
  \<open>random.choice\<close> raises \<open>IndexError\<close> on an empty sequence; \<open>random.randint(a, b)\<close>
  is called with \<open>a \<le> b\<close> only. Scores are exact rationals, not floats.
\<close>

type_synonym rng = "nat \<Rightarrow> nat"

definition rand_random :: "rng \<Rightarrow> nat \<Rightarrow> rat \<times> nat" where
  "rand_random g i = (of_nat (g i mod 2 ^ 53) / 2 ^ 53, Suc i)"

definition rand_choice :: "rng \<Rightarrow> nat \<Rightarrow> 'a list \<Rightarrow> (error + 'a) \<times> nat" where
  "rand_choice g i xs =
     (if xs = [] then (Inl IndexError, i) else (Inr (xs ! (g i mod length xs)), Suc i))"

definition rand_randint :: "rng \<Rightarrow> nat \<Rightarrow> nat \<Rightarrow> nat \<Rightarrow> nat \<times> nat" where
  "rand_randint g i a b = (a + g i mod (b + 1 - a), Suc i)"

section \<open>The position generator\<close>

text \<open>The \<open>for move in legal_moves\<close> loop of \<open>generate_random_game\<close>, which builds
  \<open>move_scores\<close>.\<close>

fun score_moves ::
  "('p, 'm) rules \<Rightarrow> rng \<Rightarrow> 'p \<Rightarrow> nat \<Rightarrow> 'm list \<Rightarrow> nat \<Rightarrow> (rat \<times> 'm) list \<times> nat" where
  "score_moves R g board moves_played [] i = ([], i)"
| "score_moves R g board moves_played (move # rest) i =
     (let (score, i1) = rand_random g i;
          score = (if is_capture R board move then score + 1 else score);
          score = (if moves_played < 10 \<and>
                      square_file (to_square R move) \<in> {3, 4} \<and>
                      square_rank (to_square R move) \<in> {3, 4}
                   then score + 1 / 2 else score);
          (move_scores, i2) = score_moves R g board moves_played rest i1
      in ((score, move) # move_scores, i2))"

text \<open>
  \<open>move_scores.sort(reverse=True)\<close> sorts the tuples \<open>(score, move)\<close>. Python compares
  two tuples of equal score by their moves, and the library's moves have equality but no
  order: the comparison raises \<open>TypeError\<close>. Two entries of a sorted list that end up
  next to each other have been compared, so the sort raises exactly when two entries
  have the same score and different moves.
\<close>

definition tie_free :: "(rat \<times> 'm) list \<Rightarrow> bool" where
  "tie_free xs = list_all (\<lambda>x. list_all (\<lambda>y. fst x \<noteq> fst y \<or> snd x = snd y) xs) xs"

definition py_sort_reverse :: "(rat \<times> 'm) list \<Rightarrow> error + (rat \<times> 'm) list" where
  "py_sort_reverse xs = (if tie_free xs then Inr (rev (sort_key fst xs)) else Inl TypeError)"

text \<open>One round of the \<open>while\<close> loop, from \<open>move_scores = []\<close> to \<open>chosen_move\<close>, for a
  non-empty list of legal moves.\<close>

definition choose_move ::
  "('p, 'm) rules \<Rightarrow> rng \<Rightarrow> 'p \<Rightarrow> nat \<Rightarrow> 'm list \<Rightarrow> nat \<Rightarrow> (error + 'm) \<times> nat" where
  "choose_move R g board moves_played legal i =
     (let (move_scores, i1) = score_moves R g board moves_played legal i in
      case py_sort_reverse move_scores of
        Inl e \<Rightarrow> (Inl e, i1)
      | Inr sorted_scores \<Rightarrow>
          let top_moves = take (min 5 (length sorted_scores)) sorted_scores in
          (case rand_choice g i1 top_moves of
             (Inl e, i2) \<Rightarrow> (Inl e, i2)
           | (Inr chosen, i2) \<Rightarrow> (Inr (snd chosen), i2)))"

text \<open>The \<open>while\<close> loop of \<open>generate_random_game\<close>, from a board and a number of moves
  played.\<close>

function generate_loop ::
  "('p, 'm) rules \<Rightarrow> rng \<Rightarrow> nat \<Rightarrow> 'p \<Rightarrow> nat \<Rightarrow> nat \<Rightarrow> (error + 'p) \<times> nat" where
  "generate_loop R g max_moves board moves_played i =
     (if \<not> is_game_over R board \<and> moves_played < max_moves then
        (if legal_moves R board = [] then (Inr board, i)
         else
           (case choose_move R g board moves_played (legal_moves R board) i of
              (Inl e, i') \<Rightarrow> (Inl e, i')
            | (Inr chosen_move, i') \<Rightarrow>
                generate_loop R g max_moves (push R board chosen_move) (moves_played + 1) i'))
      else (Inr board, i))"
  by pat_completeness auto
termination
  by (relation "measure (\<lambda>(R, g, max_moves, board, moves_played, i). max_moves - moves_played)")
    auto

definition generate_random_game ::
  "('p, 'm) rules \<Rightarrow> rng \<Rightarrow> nat \<Rightarrow> nat \<Rightarrow> (error + 'p) \<times> nat" where
  "generate_random_game R g max_moves i = generate_loop R g max_moves (new_board R) 0 i"

section \<open>The mate finder\<close>

text \<open>The result of \<open>find_puzzle_position\<close>: \<open>(None, None, None)\<close> or
  \<open>(board, mate_in, solution)\<close>.\<close>

datatype ('p, 'm) found = NotFound | Found 'p int "'m list"

text \<open>
  \<open>find_puzzle_position(engine, max_attempts)\<close>: the first argument of the recursion is
  the number of rounds of \<open>for attempt in range(max_attempts)\<close> still to run. The test
  \<open>if mate_in and solution\<close> is Python's truth: a number other than zero, a list other
  than the empty one. An exception of the generator is not caught here.
\<close>

fun find_puzzle_position ::
  "('p, 'm) rules \<Rightarrow> ('e, 'p, 'm) analyse \<Rightarrow> rng \<Rightarrow> nat \<Rightarrow> nat \<Rightarrow> 'e \<Rightarrow>
     (error + ('p, 'm) found) \<times> nat \<times> 'e" where
  "find_puzzle_position R analyse g 0 i eng = (Inr NotFound, i, eng)"
| "find_puzzle_position R analyse g (Suc n) i eng =
     (let (max_moves, i1) = rand_randint g i 15 35 in
      case generate_random_game R g max_moves i1 of
        (Inl e, i2) \<Rightarrow> (Inl e, i2, eng)
      | (Inr board, i2) \<Rightarrow>
          if is_game_over R board then find_puzzle_position R analyse g n i2 eng
          else
            (case analyze_for_mate analyse eng board 3 of
               ((Some mate_in, Some solution), eng') \<Rightarrow>
                 if mate_in \<noteq> 0 \<and> solution \<noteq> []
                 then (Inr (Found board mate_in solution), i2, eng')
                 else find_puzzle_position R analyse g n i2 eng'
             | ((_, _), eng') \<Rightarrow> find_puzzle_position R analyse g n i2 eng'))"

section \<open>Theorems\<close>

lemma mate_neg_score: "map_option abs (mate (neg_score s)) = map_option abs (mate s)"
  by (cases s) auto

lemma is_mate_iff: "is_mate s \<longleftrightarrow> mate s \<noteq> None"
  by (cases s) auto

lemma mate_white: "map_option abs (mate (white sc)) = map_option abs (mate (relative sc))"
  by (simp add: white_def mate_neg_score)

lemma analyze_for_mate_engine_state:
  "snd (analyze_for_mate analyse eng board k) = snd (analyse eng board)"
  by (auto simp: analyze_for_mate_def Let_def split: prod.splits sum.splits option.splits)

text \<open>
  C2. With \<open>M\<close> the mate distance that the evaluation reports: if \<open>M \<le> 3\<close> and the principal
  variation has at least \<open>2M - 1\<close> moves, \<open>analyze_for_mate\<close> returns \<open>M\<close> and the first \<open>2M\<close>
  moves of the variation; in every other case (an exception, no score, no mate score, a
  longer mate, a shorter variation) it returns \<open>(None, None)\<close>.
\<close>

theorem analyze_for_mate_spec:
  "fst (analyze_for_mate analyse eng board 3) = spec_analysis (fst (analyse eng board))"
proof (cases "analyse eng board")
  case (Pair r eng')
  show ?thesis
  proof (cases r)
    case (Inl e)
    with Pair show ?thesis
      by (simp add: analyze_for_mate_def spec_analysis_def reported_mate_def)
  next
    case (Inr info)
    show ?thesis
    proof (cases "info_score info")
      case None
      with Pair Inr show ?thesis
        by (simp add: analyze_for_mate_def spec_analysis_def reported_mate_def)
    next
      case (Some sc)
      have m: "map_option abs (mate (white sc)) = map_option abs (mate (relative sc))"
        by (rule mate_white)
      show ?thesis
      proof (cases "mate (white sc)")
        case None
        with m have "mate (relative sc) = None" by simp
        with Pair Inr Some None show ?thesis
          by (simp add: analyze_for_mate_def spec_analysis_def reported_mate_def is_mate_iff)
      next
        case (Some k)
        with m obtain k' where k': "mate (relative sc) = Some k'" "\<bar>k'\<bar> = \<bar>k\<bar>"
          by (cases "mate (relative sc)") auto
        with Pair Inr \<open>info_score info = Some sc\<close> Some show ?thesis
          by (simp add: analyze_for_mate_def spec_analysis_def reported_mate_def reported_pv_def
              is_mate_iff py_take_def Let_def mult.commute)
      qed
    qed
  qed
qed

end
